theory Spec2Isabelle
  imports Main
begin

section \<open>Foreground: the update lifecycle controller of App.tsx\<close>

text \<open>
  The first effect of \<^verbatim>\<open>App\<close> keeps two closure variables (\<^verbatim>\<open>isMounted\<close>,
  \<^verbatim>\<open>refreshing\<close>), one piece of React state (\<^verbatim>\<open>updateAvailable\<close>) and one ref
  (\<^verbatim>\<open>waitingWorkerRef\<close>). Its handlers run one at a time on the page's event loop, so
  the embedding is a state record and one function per handler. What a handler does to the
  outside world is recorded in the state: \<open>posted\<close> lists the messages given to
  \<^verbatim>\<open>postMessage\<close>, \<open>reloads\<close> counts the calls of \<^verbatim>\<open>window.location.reload\<close>.
  A worker object is identified by a number.
\<close>

type_synonym worker = nat

record update_state =
  isMounted :: bool
  refreshing :: bool
  listening :: bool
  readyPending :: bool
  updatefoundListener :: bool
  statechangeListeners :: "worker list"
  updateAvailable :: bool
  waitingWorkerRef :: "worker option"
  posted :: "(worker \<times> string) list"
  reloads :: nat

text \<open>Before the effect has run: \<^verbatim>\<open>useState(false)\<close>, \<^verbatim>\<open>useRef(null)\<close>.\<close>

definition initial :: update_state where
  "initial = \<lparr> isMounted = False, refreshing = False, listening = False,
     readyPending = False, updatefoundListener = False, statechangeListeners = [],
     updateAvailable = False, waitingWorkerRef = None, posted = [], reloads = 0 \<rparr>"

text \<open>
  The effect body (lines 29 to 86). Without \<^verbatim>\<open>serviceWorker\<close> in \<^verbatim>\<open>navigator\<close> it returns at
  once. Otherwise it sets the two flags, attaches the \<^verbatim>\<open>message\<close> and
  \<^verbatim>\<open>controllerchange\<close> listeners and calls \<^verbatim>\<open>registerUpdateListeners\<close>, which suspends
  on \<^verbatim>\<open>navigator.serviceWorker.ready\<close>.
\<close>

definition mount :: "bool \<Rightarrow> update_state \<Rightarrow> update_state" where
  "mount serviceWorkerInNavigator s =
     (if \<not> serviceWorkerInNavigator then s
      else s\<lparr> isMounted := True, refreshing := False, listening := True,
              readyPending := True \<rparr>)"

text \<open>
  \<^verbatim>\<open>registerUpdateListeners\<close> after \<^verbatim>\<open>ready\<close> has resolved (lines 41 to 62); the argument is
  \<^verbatim>\<open>registration.waiting\<close>.
\<close>

definition registerUpdateListeners :: "worker option \<Rightarrow> update_state \<Rightarrow> update_state" where
  "registerUpdateListeners waiting s =
     (if \<not> isMounted s then s
      else
        let s1 = (case waiting of
                    None \<Rightarrow> s
                  | Some w \<Rightarrow> s\<lparr> waitingWorkerRef := Some w, updateAvailable := True \<rparr>)
        in s1\<lparr> updatefoundListener := True \<rparr>)"

text \<open>The \<^verbatim>\<open>updatefound\<close> listener (lines 50 to 62); the argument is \<^verbatim>\<open>registration.installing\<close>.\<close>

definition onUpdateFound :: "worker option \<Rightarrow> update_state \<Rightarrow> update_state" where
  "onUpdateFound installing s =
     (case installing of
        None \<Rightarrow> s
      | Some newWorker \<Rightarrow> s\<lparr> statechangeListeners := statechangeListeners s @ [newWorker] \<rparr>)"

text \<open>
  The \<^verbatim>\<open>statechange\<close> listener (lines 56 to 61). Arguments: \<^verbatim>\<open>newWorker.state\<close>, whether
  \<^verbatim>\<open>navigator.serviceWorker.controller\<close> is set, and \<^verbatim>\<open>registration.waiting\<close>.
\<close>

definition onStateChange :: "string \<Rightarrow> bool \<Rightarrow> worker option \<Rightarrow> update_state \<Rightarrow> update_state" where
  "onStateChange state controller waiting s =
     (if state = ''installed'' \<and> controller
      then s\<lparr> waitingWorkerRef := waiting, updateAvailable := True \<rparr>
      else s)"

text \<open>
  \<^verbatim>\<open>handleMessage\<close> (lines 68 to 72). The argument is \<^verbatim>\<open>event.data?.type\<close>: \<open>None\<close> when the
  data is null or undefined or carries no string \<^verbatim>\<open>type\<close>.
\<close>

definition handleMessage :: "string option \<Rightarrow> update_state \<Rightarrow> update_state" where
  "handleMessage dataType s =
     (if dataType = Some ''NEW_VERSION'' then s\<lparr> updateAvailable := True \<rparr> else s)"

text \<open>\<^verbatim>\<open>handleControllerChange\<close> (lines 74 to 81).\<close>

definition handleControllerChange :: "update_state \<Rightarrow> update_state" where
  "handleControllerChange s =
     (if refreshing s then s
      else s\<lparr> refreshing := True, waitingWorkerRef := None, reloads := Suc (reloads s) \<rparr>)"

text \<open>\<^verbatim>\<open>updatePWA\<close> (lines 132 to 135): the optional call posts nothing when the ref is null.\<close>

definition updatePWA :: "update_state \<Rightarrow> update_state" where
  "updatePWA s =
     (let s1 = (case waitingWorkerRef s of
                  None \<Rightarrow> s
                | Some w \<Rightarrow> s\<lparr> posted := posted s @ [(w, ''SKIP_WAITING'')] \<rparr>)
      in s1\<lparr> updateAvailable := False \<rparr>)"

text \<open>
  The effect's cleanup (lines 88 to 92). It removes the \<^verbatim>\<open>message\<close> and
  \<^verbatim>\<open>controllerchange\<close> listeners; the \<^verbatim>\<open>updatefound\<close> and \<^verbatim>\<open>statechange\<close> listeners stay.
\<close>

definition cleanup :: "update_state \<Rightarrow> update_state" where
  "cleanup s = s\<lparr> isMounted := False, listening := False \<rparr>"

text \<open>
  What the hosting runtime can deliver to the page. A handler runs only while its listener
  is attached; the update button, and so \<^verbatim>\<open>updatePWA\<close>, exists only while
  \<^verbatim>\<open>updateAvailable\<close> is true (line 157).
\<close>

datatype event =
    Ready "worker option"
  | ReadyRejected
  | UpdateFound "worker option"
  | StateChange worker string bool "worker option"
  | Message "string option"
  | ControllerChange
  | UpdateClick
  | Unmount

fun step :: "event \<Rightarrow> update_state \<Rightarrow> update_state" where
  "step (Ready waiting) s =
     (if readyPending s then registerUpdateListeners waiting (s\<lparr> readyPending := False \<rparr>) else s)"
| "step ReadyRejected s = s\<lparr> readyPending := False \<rparr>"
| "step (UpdateFound installing) s =
     (if updatefoundListener s then onUpdateFound installing s else s)"
| "step (StateChange w state controller waiting) s =
     (if w \<in> set (statechangeListeners s) then onStateChange state controller waiting s else s)"
| "step (Message dataType) s = (if listening s then handleMessage dataType s else s)"
| "step ControllerChange s = (if listening s then handleControllerChange s else s)"
| "step UpdateClick s = (if updateAvailable s then updatePWA s else s)"
| "step Unmount s = cleanup s"

fun run :: "event list \<Rightarrow> update_state \<Rightarrow> update_state" where
  "run [] s = s"
| "run (e # es) s = run es (step e s)"

section \<open>Foreground: the install prompt controller (InstallPWA and App.tsx)\<close>

datatype InstallOutcome = accepted | dismissed

text \<open>
  What \<^verbatim>\<open>deferredPrompt.prompt()\<close> followed by \<^verbatim>\<open>deferredPrompt.userChoice\<close> can do: the
  first await throws, the second rejects, or the choice resolves with an outcome.
\<close>

datatype prompt_result = PromptThrows | UserChoiceRejects | Choice InstallOutcome

record install_state =
  deferredPromptRef :: "nat option"
  showInstallPrompt :: bool
  console :: "string list"

text \<open>\<^verbatim>\<open>handleBeforeInstallPrompt\<close> and \<^verbatim>\<open>handleAppInstalled\<close> (App.tsx, lines 96 to 105).\<close>

definition handleBeforeInstallPrompt :: "nat \<Rightarrow> install_state \<Rightarrow> install_state" where
  "handleBeforeInstallPrompt ev a = a\<lparr> deferredPromptRef := Some ev, showInstallPrompt := True \<rparr>"

definition handleAppInstalled :: "install_state \<Rightarrow> install_state" where
  "handleAppInstalled a = a\<lparr> deferredPromptRef := None, showInstallPrompt := False \<rparr>"

text \<open>\<^verbatim>\<open>handleInstallChoice\<close> and \<^verbatim>\<open>handleInstallDismiss\<close> (App.tsx, lines 116 to 130).\<close>

definition handleInstallChoice :: "InstallOutcome \<Rightarrow> install_state \<Rightarrow> install_state" where
  "handleInstallChoice outcome a =
     (let a1 = a\<lparr> deferredPromptRef := None, showInstallPrompt := False \<rparr>
      in if outcome = accepted
         then a1\<lparr> console := console a1 @ [''[PWA] User accepted the install prompt''] \<rparr>
         else a1\<lparr> console := console a1 @ [''[PWA] User dismissed the install prompt''] \<rparr>)"

definition handleInstallDismiss :: "install_state \<Rightarrow> install_state" where
  "handleInstallDismiss a =
     (a\<lparr> deferredPromptRef := None, showInstallPrompt := False \<rparr>)
       \<lparr> console := console a @ [''[PWA] Install prompt dismissed for now''] \<rparr>"

text \<open>
  \<^verbatim>\<open>InstallPWA.handleInstall\<close> (lines 81 to 92 of the component). The component's own state
  is \<^verbatim>\<open>isVisible\<close>; the caller's state is threaded through the optional callback
  \<^verbatim>\<open>onInstallChoice\<close>. The \<^verbatim>\<open>catch\<close> branch serves both awaits; \<^verbatim>\<open>finally\<close> hides the
  component on every path.
\<close>

definition callOptional :: "('x \<Rightarrow> 'a \<Rightarrow> 'a) option \<Rightarrow> 'x \<Rightarrow> 'a \<Rightarrow> 'a" where
  "callOptional f x a = (case f of None \<Rightarrow> a | Some g \<Rightarrow> g x a)"

definition handleInstall ::
  "(InstallOutcome \<Rightarrow> 'a \<Rightarrow> 'a) option \<Rightarrow> prompt_result \<Rightarrow> 'a \<times> bool \<Rightarrow> 'a \<times> bool" where
  "handleInstall onInstallChoice r st =
     (case st of (a, isVisible) \<Rightarrow>
        (case r of
           Choice outcome \<Rightarrow> (callOptional onInstallChoice outcome a, False)
         | PromptThrows \<Rightarrow> (callOptional onInstallChoice dismissed a, False)
         | UserChoiceRejects \<Rightarrow> (callOptional onInstallChoice dismissed a, False)))"

text \<open>
  The install button is rendered only when \<^verbatim>\<open>App\<close> shows the component (line 149) and the
  component does not return null (its line 77).
\<close>

definition installButtonShown :: "install_state \<times> bool \<Rightarrow> bool" where
  "installButtonShown st =
     (case st of (a, isVisible) \<Rightarrow>
        showInstallPrompt a \<and> deferredPromptRef a \<noteq> None \<and> isVisible)"

section \<open>Background: service-worker.js\<close>

subsection \<open>Constants and the precache manifest (lines 5 to 28)\<close>

definition OFFLINE_FALLBACK_PAGE :: string where
  "OFFLINE_FALLBACK_PAGE = ''/offline.html''"

definition STATIC_CACHE_NAME :: string where
  "STATIC_CACHE_NAME = ''irshados-static-v1''"

definition API_CACHE_NAME :: string where
  "API_CACHE_NAME = ''irshados-api-v1''"

definition BG_SYNC_QUEUE :: string where
  "BG_SYNC_QUEUE = ''irshados-offline-post-queue''"

record manifest_entry =
  url :: string
  revision :: "string option"

definition appShellEntries :: "manifest_entry list" where
  "appShellEntries =
     [\<lparr> url = ''/'', revision = None \<rparr>,
      \<lparr> url = ''/manifest.json'', revision = None \<rparr>,
      \<lparr> url = ''/favicon.svg'', revision = None \<rparr>,
      \<lparr> url = OFFLINE_FALLBACK_PAGE, revision = None \<rparr>]"

text \<open>
  The argument is \<^verbatim>\<open>self.__WB_MANIFEST\<close>, \<open>None\<close> when it is not an array. The
  \<^verbatim>\<open>forEach\<close> pushes an app shell entry unless an item with its URL is already there.
\<close>

definition precacheManifest :: "manifest_entry list option \<Rightarrow> manifest_entry list" where
  "precacheManifest manifestEntries =
     foldl (\<lambda>acc entry. if \<not> list_ex (\<lambda>item. url item = url entry) acc
                         then acc @ [entry] else acc)
       (case manifestEntries of Some m \<Rightarrow> m | None \<Rightarrow> [])
       appShellEntries"

subsection \<open>Requests, responses and the registered routes (lines 30 to 89)\<close>

text \<open>
  The fields of a request that the script reads: \<^verbatim>\<open>url.origin\<close>, \<^verbatim>\<open>url.pathname\<close>,
  \<^verbatim>\<open>request.method\<close>, \<^verbatim>\<open>request.mode\<close>, \<^verbatim>\<open>request.destination\<close> and
  \<^verbatim>\<open>request.headers.get("accept")\<close>; \<open>href\<close> is the whole URL.
\<close>

record request =
  href :: string
  origin :: string
  pathname :: string
  requestMethod :: string
  mode :: string
  destination :: string
  accept :: "string option"

record response =
  status :: nat
  headers :: "(string \<times> string) list"
  body :: string

text \<open>\<^verbatim>\<open>String.prototype.startsWith\<close> and \<^verbatim>\<open>String.prototype.includes\<close>.\<close>

fun startsWith :: "string \<Rightarrow> string \<Rightarrow> bool" where
  "startsWith s [] = True"
| "startsWith [] (p # ps) = False"
| "startsWith (c # cs) (p # ps) = (c = p \<and> startsWith cs ps)"

fun includes_str :: "string \<Rightarrow> string \<Rightarrow> bool" where
  "includes_str [] p = (p = [])"
| "includes_str (c # cs) p = (startsWith (c # cs) p \<or> includes_str cs p)"

text \<open>
  The options the script gives to each strategy: the cache name, the statuses of the
  \<^verbatim>\<open>CacheableResponsePlugin\<close> and the options of the \<^verbatim>\<open>ExpirationPlugin\<close> (an option
  the script leaves out is \<open>None\<close> or \<open>False\<close>).
\<close>

record cache_options =
  cacheName :: string
  statuses :: "nat list"
  maxEntries :: nat
  maxAgeSeconds :: "nat option"
  purgeOnQuotaError :: bool

datatype strategy =
    PrecacheStrategy
  | NetworkFirst cache_options nat
  | StaleWhileRevalidate cache_options
  | CacheFirst cache_options
  | NetworkOnly string nat

text \<open>
  The routes in the order the script registers them: the one \<^verbatim>\<open>precacheAndRoute\<close> adds
  (line 30), then the five calls of \<^verbatim>\<open>registerRoute\<close>.
\<close>

datatype route_id =
  PrecacheRoute | NavigationRoute | StaticRoute | MediaRoute | ApiRoute | PostRoute

definition registeredRoutes :: "route_id list" where
  "registeredRoutes =
     [PrecacheRoute, NavigationRoute, StaticRoute, MediaRoute, ApiRoute, PostRoute]"

text \<open>
  The match callbacks (lines 34, 46, 58, 69 and 84). \<open>self_origin\<close> is
  \<^verbatim>\<open>self.location.origin\<close>. Which URLs the precache route takes is decided inside the
  toolkit; it is the parameter \<open>precacheMatch\<close>.
\<close>

fun matches :: "(request \<Rightarrow> bool) \<Rightarrow> string \<Rightarrow> route_id \<Rightarrow> request \<Rightarrow> bool" where
  "matches precacheMatch self_origin PrecacheRoute r = precacheMatch r"
| "matches precacheMatch self_origin NavigationRoute r = (mode r = ''navigate'')"
| "matches precacheMatch self_origin StaticRoute r =
     (destination r = ''style'' \<or> destination r = ''script'' \<or> destination r = ''worker'')"
| "matches precacheMatch self_origin MediaRoute r =
     (destination r = ''image'' \<or> destination r = ''font'')"
| "matches precacheMatch self_origin ApiRoute r =
     (origin r = self_origin \<and> startsWith (pathname r) ''/api/'' \<and> requestMethod r = ''GET'')"
| "matches precacheMatch self_origin PostRoute r =
     (origin r = self_origin \<and> requestMethod r = ''POST'')"

text \<open>
  The third argument of \<^verbatim>\<open>registerRoute\<close>. Only the last call gives one (line 88); the
  others take the toolkit's default, which is GET.
\<close>

fun routeMethod :: "route_id \<Rightarrow> string" where
  "routeMethod PostRoute = ''POST''"
| "routeMethod _ = ''GET''"

definition maxRetentionTime :: nat where
  "maxRetentionTime = 24 * 60"

fun routeStrategy :: "route_id \<Rightarrow> strategy" where
  "routeStrategy PrecacheRoute = PrecacheStrategy"
| "routeStrategy NavigationRoute =
     NetworkFirst \<lparr> cacheName = ''irshados-pages'', statuses = [0, 200], maxEntries = 20,
                    maxAgeSeconds = None, purgeOnQuotaError = True \<rparr> 5"
| "routeStrategy StaticRoute =
     StaleWhileRevalidate \<lparr> cacheName = STATIC_CACHE_NAME, statuses = [0, 200], maxEntries = 60,
                            maxAgeSeconds = Some (30 * 24 * 60 * 60), purgeOnQuotaError = False \<rparr>"
| "routeStrategy MediaRoute =
     CacheFirst \<lparr> cacheName = ''irshados-media'', statuses = [0, 200], maxEntries = 120,
                  maxAgeSeconds = Some (60 * 24 * 60 * 60), purgeOnQuotaError = True \<rparr>"
| "routeStrategy ApiRoute =
     StaleWhileRevalidate \<lparr> cacheName = API_CACHE_NAME, statuses = [0, 200], maxEntries = 50,
                            maxAgeSeconds = Some (5 * 60), purgeOnQuotaError = False \<rparr>"
| "routeStrategy PostRoute = NetworkOnly BG_SYNC_QUEUE maxRetentionTime"

subsection \<open>The catch handler (lines 91 to 111)\<close>

text \<open>
  \<^verbatim>\<open>JSON.stringify\<close> on an object whose values are strings that need no escaping, as the
  two of line 99 are.
\<close>

definition quoted :: "string \<Rightarrow> string" where
  \<open>quoted s = ''"'' @ s @ ''"''\<close>

fun members :: "(string \<times> string) list \<Rightarrow> string" where
  "members [] = []"
| "members [(k, v)] = quoted k @ '':'' @ quoted v"
| "members ((k, v) # kvs) = quoted k @ '':'' @ quoted v @ '','' @ members kvs"

definition JSON_stringify :: "(string \<times> string) list \<Rightarrow> string" where
  "JSON_stringify obj = ''{'' @ members obj @ ''}''"

text \<open>A handler answers with a response or with \<^verbatim>\<open>Response.error()\<close>.\<close>

datatype reply = Reply response | ResponseError

text \<open>
  The first argument is what \<^verbatim>\<open>caches.match(OFFLINE_FALLBACK_PAGE)\<close> resolves to. The
  optional chain on the Accept header is false when the header is absent.
\<close>

definition catchHandler :: "response option \<Rightarrow> request \<Rightarrow> reply" where
  "catchHandler cachedPage r =
     (if destination r = ''document''
      then (case cachedPage of Some page \<Rightarrow> Reply page | None \<Rightarrow> ResponseError)
      else if (case accept r of None \<Rightarrow> False | Some a \<Rightarrow> includes_str a ''application/json'')
      then Reply \<lparr> status = 503,
                   headers = [(''Content-Type'', ''application/json'')],
                   body = JSON_stringify
                     [(''error'', ''offline''),
                      (''message'', ''This content is unavailable while you are offline.'')] \<rparr>
      else ResponseError)"

subsection \<open>What evaluating the script registers (lines 10 to 122)\<close>

record registrations =
  cachePrefix :: "string option"
  precached :: "manifest_entry list option"
  outdatedCachesCleanup :: bool
  routes :: "route_id list"
  syncQueue :: "(string \<times> nat) option"
  catchHandlerSet :: bool
  clientsClaim :: bool
  warnings :: "string list"
  messageListener :: bool

text \<open>
  How line 3 ends. \<^verbatim>\<open>importScripts\<close> is called at the top level, outside any
  \<^verbatim>\<open>try\<close>: when the toolkit's script cannot be loaded the call throws and the
  evaluation of the worker script stops there. Otherwise it returns, and
  \<^verbatim>\<open>self.workbox\<close> is truthy or not.
\<close>

datatype imported = ImportThrows | Imported bool

text \<open>A script that has registered nothing.\<close>

definition noRegistrations :: registrations where
  "noRegistrations =
     \<lparr> cachePrefix = None, precached = None, outdatedCachesCleanup = False, routes = [],
       syncQueue = None, catchHandlerSet = False, clientsClaim = False, warnings = [],
       messageListener = False \<rparr>"

text \<open>
  The evaluation of the script, statement by statement. The first argument says for which
  manifests the toolkit's \<^verbatim>\<open>precacheAndRoute\<close> (line 30) returns rather than throws; that
  is decided inside the toolkit. The second is the outcome of line 3, the third is
  \<^verbatim>\<open>self.__WB_MANIFEST\<close>. A throw at line 3 or at line 30 ends the evaluation: what was
  registered before stays, nothing after it is reached, the \<^verbatim>\<open>message\<close> listener of
  line 118 included. When the evaluation reaches line 118 the listener is added, on both
  branches of the conditional.
\<close>

definition evaluateScript ::
  "(manifest_entry list \<Rightarrow> bool) \<Rightarrow> imported \<Rightarrow> manifest_entry list option \<Rightarrow> registrations" where
  "evaluateScript precacheAndRouteReturns imp manifestEntries =
     (case imp of
        ImportThrows \<Rightarrow> noRegistrations
      | Imported workbox \<Rightarrow>
          if workbox
          then if precacheAndRouteReturns (precacheManifest manifestEntries)
               then \<lparr> cachePrefix = Some ''irshados'',
                      precached = Some (precacheManifest manifestEntries),
                      outdatedCachesCleanup = True,
                      routes = registeredRoutes,
                      syncQueue = Some (BG_SYNC_QUEUE, maxRetentionTime),
                      catchHandlerSet = True,
                      clientsClaim = True,
                      warnings = [],
                      messageListener = True \<rparr>
               else noRegistrations\<lparr> cachePrefix := Some ''irshados'' \<rparr>
          else noRegistrations
                 \<lparr> warnings := [''[PWA] Workbox failed to load. Offline support will be limited.''],
                   messageListener := True \<rparr>)"

text \<open>
  The listener of lines 118 to 122, on the number of \<^verbatim>\<open>self.skipWaiting()\<close> calls made so
  far; the argument is \<^verbatim>\<open>event.data?.type\<close>.
\<close>

definition onMessage :: "string option \<Rightarrow> nat \<Rightarrow> nat" where
  "onMessage dataType skipWaitingCalls =
     (if dataType = Some ''SKIP_WAITING'' then Suc skipWaitingCalls else skipWaitingCalls)"

definition dispatchMessage :: "registrations \<Rightarrow> string option \<Rightarrow> nat \<Rightarrow> nat" where
  "dispatchMessage g dataType skipWaitingCalls =
     (if messageListener g then onMessage dataType skipWaitingCalls else skipWaitingCalls)"

section \<open>The caching toolkit the script configures\<close>

text \<open>
  The script loads the toolkit with \<^verbatim>\<open>importScripts\<close> (line 3); its code is not part of
  the sources. The definitions of this section give the toolkit's strategies, plugins and
  queue the behaviour the specification describes for them; the options they are run with
  are those of \<open>routeStrategy\<close> above. Times are in milliseconds.
\<close>

subsection \<open>Cache namespaces\<close>

text \<open>
  Modelled from the spec: the cache storage of the toolkit is missing. Section 3:
  a cache entry is a key (request URL and method), the stored response and the time of
  insertion; a namespace is a named partition holding such entries.
\<close>

record cache_entry =
  key :: "string \<times> string"
  stored :: response
  insertedAt :: nat

text \<open>
  Modelled from the spec: the key a request is stored under is missing. Section 3: the
  request URL and method.
\<close>

definition cacheKey :: "request \<Rightarrow> string \<times> string" where
  "cacheKey r = (href r, requestMethod r)"

text \<open>
  Modelled from the spec: the cache lookup is missing. Section 3: a namespace is addressed
  by key; the lookup gives the stored response of the entry with the request's key.
\<close>

definition cacheMatch :: "cache_entry list \<Rightarrow> request \<Rightarrow> response option" where
  "cacheMatch es r = map_option stored (find (\<lambda>e. key e = cacheKey r) es)"

text \<open>
  Modelled from the spec: the cacheable-response plugin is missing. Section 3: only
  responses with status in an allow-list are persisted.
\<close>

definition cacheWillUpdate :: "nat list \<Rightarrow> response \<Rightarrow> bool" where
  "cacheWillUpdate allowed resp = (status resp \<in> set allowed)"

text \<open>
  Modelled from the spec: the expiration plugin is missing. Section 3: the lifetime of an
  entry is bounded by an entry-count ceiling and an age ceiling per namespace; beyond the
  ceiling the least recently inserted entries are evicted. Entries are kept in order of
  insertion, the newest last.
\<close>

definition expireEntries :: "cache_options \<Rightarrow> nat \<Rightarrow> cache_entry list \<Rightarrow> cache_entry list" where
  "expireEntries opts now es =
     (let young = (case maxAgeSeconds opts of
                     None \<Rightarrow> es
                   | Some age \<Rightarrow> filter (\<lambda>e. now \<le> insertedAt e + age * 1000) es)
      in drop (length young - maxEntries opts) young)"

text \<open>
  Modelled from the spec: the write path of a strategy is missing. Section 4.1: only
  responses whose status is eligible are stored, all others bypass storage; a stored
  response replaces the entry of the same key.
\<close>

definition cachePut ::
  "cache_options \<Rightarrow> nat \<Rightarrow> request \<Rightarrow> response \<Rightarrow> cache_entry list \<Rightarrow> cache_entry list" where
  "cachePut opts now r resp es =
     (if cacheWillUpdate (statuses opts) resp
      then expireEntries opts now
             (filter (\<lambda>e. key e \<noteq> cacheKey r) es
                @ [\<lparr> key = cacheKey r, stored = resp, insertedAt = now \<rparr>])
      else es)"

subsection \<open>Strategies\<close>

text \<open>
  Modelled from the spec: the network attempt a strategy makes is missing. Section 4.2
  tells a network-level failure (the attempt throws) from an HTTP response of any status;
  section 4.1 needs the time the answer took, in milliseconds, for the timeout.
\<close>

datatype network = Answers nat response | Throws

text \<open>
  Modelled from the spec: the Network-First strategy is missing. Section 4.1: on success
  the response is returned and written to the namespace. The glossary: the network is tried
  before the cache, with a fall back to the cache on failure or timeout. Section 5 has the
  attempt cancelled at the timeout; the toolkit lets it run on, so an answer that arrives
  after the timeout is still written, and it is the response when the cache has no entry
  for the request. \<open>None\<close> is a strategy that has no response to give.
\<close>

definition networkFirst ::
  "cache_options \<Rightarrow> nat \<Rightarrow> nat \<Rightarrow> request \<Rightarrow> network \<Rightarrow> cache_entry list
     \<Rightarrow> response option \<times> cache_entry list" where
  "networkFirst opts networkTimeoutSeconds now r net es =
     (case net of
        Answers elapsed resp \<Rightarrow>
          if elapsed \<le> networkTimeoutSeconds * 1000
          then (Some resp, cachePut opts now r resp es)
          else (case cacheMatch es r of
                  Some cached \<Rightarrow> (Some cached, cachePut opts now r resp es)
                | None \<Rightarrow> (Some resp, cachePut opts now r resp es))
      | Throws \<Rightarrow> (cacheMatch es r, es))"

text \<open>
  Modelled from the spec: the Stale-While-Revalidate strategy is missing. Section 4.1: it
  returns the cached copy if present while a revalidation fetch is issued, and writes the
  fresh response in when it arrives.
\<close>

definition staleWhileRevalidate ::
  "cache_options \<Rightarrow> nat \<Rightarrow> request \<Rightarrow> network \<Rightarrow> cache_entry list
     \<Rightarrow> response option \<times> cache_entry list" where
  "staleWhileRevalidate opts now r net es =
     (let fresh = (case net of Answers elapsed resp \<Rightarrow> Some resp | Throws \<Rightarrow> None);
          es' = (case fresh of Some resp \<Rightarrow> cachePut opts now r resp es | None \<Rightarrow> es)
      in (case cacheMatch es r of Some cached \<Rightarrow> (Some cached, es') | None \<Rightarrow> (fresh, es')))"

text \<open>
  Modelled from the spec: the Cache-First strategy is missing. Section 4.1: it fetches
  from the network only on a cache miss.
\<close>

definition cacheFirst ::
  "cache_options \<Rightarrow> nat \<Rightarrow> request \<Rightarrow> network \<Rightarrow> cache_entry list
     \<Rightarrow> response option \<times> cache_entry list" where
  "cacheFirst opts now r net es =
     (case cacheMatch es r of
        Some cached \<Rightarrow> (Some cached, es)
      | None \<Rightarrow>
          (case net of
             Answers elapsed resp \<Rightarrow> (Some resp, cachePut opts now r resp es)
           | Throws \<Rightarrow> (None, es)))"

subsection \<open>The offline mutation queue\<close>

text \<open>
  Modelled from the spec: the background-sync queue is missing. Section 3: a queued
  mutation is a request snapshot with its enqueue time. Section 4.2: an entry is enqueued
  when the network attempt of the request throws, not on an HTTP error response.
\<close>

record queued =
  snapshot :: request
  enqueuedAt :: nat

text \<open>
  Modelled from the spec: the Network-Only strategy with the background-sync plugin is
  missing. Section 4.1: the response of the network is the answer; on failure the request
  is persisted into the queue. Section 4.2: at the end of the queue, with its enqueue time.
\<close>

definition networkOnly ::
  "nat \<Rightarrow> request \<Rightarrow> network \<Rightarrow> queued list \<Rightarrow> response option \<times> queued list" where
  "networkOnly now r net q =
     (case net of
        Answers elapsed resp \<Rightarrow> (Some resp, q)
      | Throws \<Rightarrow> (None, q @ [\<lparr> snapshot = r, enqueuedAt = now \<rparr>]))"

text \<open>
  Modelled from the spec: the retention check of the queue is missing. Section 4.2: an
  entry older than the configured window is dropped without replay. The window is the
  \<^verbatim>\<open>maxRetentionTime\<close> option, which the toolkit reads in minutes.
\<close>

definition expired :: "nat \<Rightarrow> nat \<Rightarrow> queued \<Rightarrow> bool" where
  "expired retention now e = (enqueuedAt e + retention * 60 * 1000 < now)"

text \<open>
  Modelled from the spec: the replay of the queue is missing. Section 4.2: entries are
  replayed in enqueue order; an entry leaves the queue on a successful replay or when it
  is past the window; a failed replay leaves it queued for the next opportunity. The pass
  ends at the first failed replay, so that no later entry overtakes the failed one. The
  result is the remaining queue and the replays attempted, in order, each with its outcome.
\<close>

fun replayRequests ::
  "nat \<Rightarrow> nat \<Rightarrow> (request \<Rightarrow> bool) \<Rightarrow> queued list \<Rightarrow> queued list \<times> (queued \<times> bool) list" where
  "replayRequests retention now fetchOk [] = ([], [])"
| "replayRequests retention now fetchOk (e # es) =
     (if expired retention now e then replayRequests retention now fetchOk es
      else if fetchOk (snapshot e)
      then (case replayRequests retention now fetchOk es of
              (remaining, attempts) \<Rightarrow> (remaining, (e, True) # attempts))
      else (e # es, [(e, False)]))"

subsection \<open>The router\<close>

text \<open>
  Modelled from the spec: the persisted state of the worker is missing. Section 6: the
  cache namespaces the strategies write, by name, and the one durable queue. The precache
  is kept by the toolkit's own route and is not part of this state.
\<close>

record worker_state =
  caches :: "string \<Rightarrow> cache_entry list"
  queue :: "queued list"

text \<open>
  The parts of the toolkit that neither the sources nor the specification describe are
  parameters: which requests the precache route takes, and what it answers.
\<close>

record toolkit =
  precacheMatch :: "request \<Rightarrow> bool"
  precacheHandle :: "request \<Rightarrow> network \<Rightarrow> response option"

text \<open>
  Modelled from the spec: the router of the toolkit is missing. Section 2: it matches a
  request to the strategy registered for its class; the first registered route of the
  request's method whose match callback accepts the request handles it.
\<close>

definition findMatchingRoute ::
  "(request \<Rightarrow> bool) \<Rightarrow> string \<Rightarrow> route_id list \<Rightarrow> request \<Rightarrow> route_id option" where
  "findMatchingRoute pm self_origin rs r =
     find (\<lambda>rid. routeMethod rid = requestMethod r \<and> matches pm self_origin rid r) rs"

text \<open>
  Modelled from the spec: the step from a registered strategy to its run is missing. Each
  strategy works on the namespace its options name, the Network-Only strategy on the queue;
  what the precache route answers is the toolkit's.
\<close>

fun runStrategy ::
  "toolkit \<Rightarrow> nat \<Rightarrow> request \<Rightarrow> network \<Rightarrow> strategy \<Rightarrow> worker_state
     \<Rightarrow> response option \<times> worker_state" where
  "runStrategy tk now r net PrecacheStrategy st = (precacheHandle tk r net, st)"
| "runStrategy tk now r net (NetworkFirst opts t) st =
     (case networkFirst opts t now r net (caches st (cacheName opts)) of
        (resp, es) \<Rightarrow> (resp, st\<lparr> caches := (caches st)(cacheName opts := es) \<rparr>))"
| "runStrategy tk now r net (StaleWhileRevalidate opts) st =
     (case staleWhileRevalidate opts now r net (caches st (cacheName opts)) of
        (resp, es) \<Rightarrow> (resp, st\<lparr> caches := (caches st)(cacheName opts := es) \<rparr>))"
| "runStrategy tk now r net (CacheFirst opts) st =
     (case cacheFirst opts now r net (caches st (cacheName opts)) of
        (resp, es) \<Rightarrow> (resp, st\<lparr> caches := (caches st)(cacheName opts := es) \<rparr>))"
| "runStrategy tk now r net (NetworkOnly queueName retention) st =
     (case networkOnly now r net (queue st) of
        (resp, q) \<Rightarrow> (resp, st\<lparr> queue := q \<rparr>))"

text \<open>
  Modelled from the spec: the toolkit's handling of one fetch event is missing. Without a
  matching route the worker does not answer (\<open>None\<close>) and the request goes to the
  network as if there were no worker. With one, the strategy's response is the answer.
  Section 4.3: when routing and caching both fail to satisfy the request, the catch handler
  answers; its first argument is the offline page found in the caches, if any.
\<close>

definition handleRequest ::
  "toolkit \<Rightarrow> registrations \<Rightarrow> string \<Rightarrow> response option \<Rightarrow> nat \<Rightarrow> request \<Rightarrow> network
     \<Rightarrow> worker_state \<Rightarrow> reply option \<times> worker_state" where
  "handleRequest tk g self_origin cachedPage now r net st =
     (case findMatchingRoute (precacheMatch tk) self_origin (routes g) r of
        None \<Rightarrow> (None, st)
      | Some rid \<Rightarrow>
          (case runStrategy tk now r net (routeStrategy rid) st of
             (Some resp, st') \<Rightarrow> (Some (Reply resp), st')
           | (None, st') \<Rightarrow> (Some (catchHandler cachedPage r), st')))"

text \<open>
  Modelled from the spec: the replay trigger is missing. Section 4.2: a replay opportunity
  replays the queue the script configures (line 79); \<open>now\<close> is its time.
\<close>

definition onSync ::
  "registrations \<Rightarrow> nat \<Rightarrow> (request \<Rightarrow> bool) \<Rightarrow> worker_state
     \<Rightarrow> worker_state \<times> (queued \<times> bool) list" where
  "onSync g now fetchOk st =
     (case syncQueue g of
        None \<Rightarrow> (st, [])
      | Some (queueName, retention) \<Rightarrow>
          (case replayRequests retention now fetchOk (queue st) of
             (remaining, attempts) \<Rightarrow> (st\<lparr> queue := remaining \<rparr>, attempts)))"

section \<open>Properties of the update lifecycle controller\<close>

lemmas handler_defs = registerUpdateListeners_def onUpdateFound_def onStateChange_def
  handleMessage_def handleControllerChange_def updatePWA_def cleanup_def

lemma step_keeps_refreshing:
  "refreshing s \<Longrightarrow> refreshing (step e s) \<and> reloads (step e s) = reloads s"
  by (cases e) (simp_all add: handler_defs Let_def split: option.splits)

lemma run_after_refreshing: "refreshing s \<Longrightarrow> reloads (run es s) = reloads s"
  by (induction es arbitrary: s) (simp_all add: step_keeps_refreshing)

lemma step_keeps_listening: "listening s \<Longrightarrow> e \<noteq> Unmount \<Longrightarrow> listening (step e s)"
  by (cases e) (simp_all add: handler_defs Let_def split: option.splits)

lemma run_keeps_listening: "listening s \<Longrightarrow> Unmount \<notin> set es \<Longrightarrow> listening (run es s)"
proof (induction es arbitrary: s)
  case Nil
  then show ?case by simp
next
  case (Cons e es)
  then show ?case using step_keeps_listening [of s e] by auto
qed

lemma step_sets_refreshing:
  "\<not> refreshing s \<Longrightarrow> refreshing (step e s) \<Longrightarrow> reloads (step e s) = Suc (reloads s)"
  by (cases e) (simp_all add: handler_defs Let_def split: option.splits if_splits)

lemma step_not_refreshing:
  "\<not> refreshing s \<Longrightarrow> \<not> refreshing (step e s) \<Longrightarrow> reloads (step e s) = reloads s"
  by (cases e) (simp_all add: handler_defs Let_def split: option.splits if_splits)

lemma controllerchange_reloads:
  "listening s \<Longrightarrow> \<not> refreshing s \<Longrightarrow>
     refreshing (step ControllerChange s) \<and> reloads (step ControllerChange s) = Suc (reloads s)"
  by (simp add: handleControllerChange_def)

lemma run_reloads_once:
  "listening s \<Longrightarrow> \<not> refreshing s \<Longrightarrow> Unmount \<notin> set pre \<Longrightarrow>
     reloads (run (pre @ ControllerChange # post) s) = Suc (reloads s)"
proof (induction pre arbitrary: s)
  case Nil
  then show ?case
    using controllerchange_reloads [of s] run_after_refreshing [of "step ControllerChange s" post]
    by simp
next
  case (Cons e pre)
  show ?case
  proof (cases "refreshing (step e s)")
    case True
    with Cons.prems show ?thesis
      using step_sets_refreshing [of s e]
        run_after_refreshing [of "step e s" "pre @ ControllerChange # post"]
      by simp
  next
    case False
    have "listening (step e s)"
      using Cons.prems step_keeps_listening [of s e] by auto
    with False Cons.prems Cons.IH [of "step e s"] step_not_refreshing [of s e]
    show ?thesis by simp
  qed
qed

lemma run_append: "run (xs @ ys) s = run ys (run xs s)"
  by (induction xs arbitrary: s) simp_all

lemma run_controllerchanges_noop: "refreshing s \<Longrightarrow> run (replicate k ControllerChange) s = s"
  by (induction k) (simp_all add: handleControllerChange_def)

text \<open>
  C4. Take a state of the mounted controller in which no reload has been started, and any
  sequence of events that delivers the controller-change signal at least once before an
  unmount (the events before it may include the user's confirmation, which posts the
  skip-waiting message). Whatever follows the first delivery, the page is reloaded exactly
  once; further deliveries of the signal right after the first change nothing at all.
\<close>

theorem reload_exactly_once:
  assumes "listening s" and "\<not> refreshing s" and "Unmount \<notin> set pre"
  shows "reloads (run (pre @ ControllerChange # post) s) = Suc (reloads s)
       \<and> run (pre @ ControllerChange # replicate k ControllerChange) s
           = run (pre @ [ControllerChange]) s"
proof
  show "reloads (run (pre @ ControllerChange # post) s) = Suc (reloads s)"
    using assms by (rule run_reloads_once)
next
  have "listening (run pre s)"
    using assms(1,3) by (rule run_keeps_listening)
  then have "refreshing (step ControllerChange (run pre s))"
    by (simp add: handleControllerChange_def)
  then show "run (pre @ ControllerChange # replicate k ControllerChange) s
           = run (pre @ [ControllerChange]) s"
    by (simp add: run_append run_controllerchanges_noop)
qed

theorem reload_exactly_once_witness:
  "listening (run [Ready (Some 7)] (mount True initial))
   \<and> \<not> refreshing (run [Ready (Some 7)] (mount True initial))
   \<and> updateAvailable (run [Ready (Some 7)] (mount True initial))
   \<and> Unmount \<notin> set [UpdateClick]
   \<and> posted (run [UpdateClick] (run [Ready (Some 7)] (mount True initial)))
       = [(7, ''SKIP_WAITING'')]
   \<and> reloads (run ([UpdateClick] @ ControllerChange # [ControllerChange])
        (run [Ready (Some 7)] (mount True initial))) = Suc 0
   \<and> run ([UpdateClick] @ ControllerChange # replicate 1 ControllerChange)
        (run [Ready (Some 7)] (mount True initial))
       = run ([UpdateClick] @ [ControllerChange]) (run [Ready (Some 7)] (mount True initial))"
proof -
  have h: "listening (run [Ready (Some 7)] (mount True initial))"
    "\<not> refreshing (run [Ready (Some 7)] (mount True initial))"
    "Unmount \<notin> set [UpdateClick]"
    by (simp_all add: mount_def initial_def handler_defs)
  show ?thesis
    using reload_exactly_once [OF h, of "[ControllerChange]" 1]
    by (simp add: mount_def initial_def handler_defs)
qed

text \<open>
  C7. The claim asks that the user's confirmation in the update-available state sends the
  skip-waiting instruction whichever path led there. On the path of the
  \<^verbatim>\<open>NEW_VERSION\<close> message the handler raises \<^verbatim>\<open>updateAvailable\<close> without recording a
  waiting worker, as the two other paths do. Evaluated on that path: after the message the
  update button is shown, the ref is still null, and the confirmation posts no message
  while the button disappears.
\<close>

theorem new_version_confirm_posts_nothing:
  "updateAvailable (step (Message (Some ''NEW_VERSION'')) (mount True initial))
   \<and> waitingWorkerRef (step (Message (Some ''NEW_VERSION'')) (mount True initial)) = None
   \<and> posted (run [Message (Some ''NEW_VERSION''), UpdateClick] (mount True initial)) = []
   \<and> \<not> updateAvailable (run [Message (Some ''NEW_VERSION''), UpdateClick] (mount True initial))"
  by (simp add: mount_def initial_def handler_defs)

text \<open>
  On the two other paths a worker has been recorded, and the confirmation posts the
  instruction to it.
\<close>

lemma confirm_posts_to_recorded_worker:
  "updateAvailable s \<Longrightarrow> waitingWorkerRef s = Some w \<Longrightarrow>
     posted (step UpdateClick s) = posted s @ [(w, ''SKIP_WAITING'')]
     \<and> \<not> updateAvailable (step UpdateClick s)"
  by (simp add: updatePWA_def)

text \<open>
  C8, as stated: the controller becomes update-available exactly on (a) a waiting worker at
  startup or (b) a new worker reaching the installed state under an active controller. It
  fails: with no waiting worker and no installation in progress, a \<^verbatim>\<open>NEW_VERSION\<close>
  message makes the transition.
\<close>

theorem new_version_message_counterexample:
  "\<not> updateAvailable (mount True initial)
   \<and> waitingWorkerRef (mount True initial) = None
   \<and> statechangeListeners (mount True initial) = []
   \<and> updateAvailable (step (Message (Some ''NEW_VERSION'')) (mount True initial))"
  by (simp add: mount_def initial_def handler_defs)

text \<open>
  C8, amended. From a state that is not update-available, one event makes the controller
  update-available exactly when it is (a) the readiness of the registration, on a mounted
  page, with a waiting worker present, or (b) a tracked new worker reaching the state
  \<^verbatim>\<open>installed\<close> while a controller is active, or (c) a \<^verbatim>\<open>NEW_VERSION\<close> message while
  the message listener is attached. In particular a worker that reaches \<^verbatim>\<open>installed\<close>
  with no active controller (a first install) does not make the transition.
\<close>

theorem update_available_transition:
  assumes "\<not> updateAvailable s"
  shows "updateAvailable (step e s) \<longleftrightarrow>
           (\<exists>w. e = Ready (Some w) \<and> readyPending s \<and> isMounted s)
         \<or> (\<exists>w waiting. e = StateChange w ''installed'' True waiting
                \<and> w \<in> set (statechangeListeners s))
         \<or> (e = Message (Some ''NEW_VERSION'') \<and> listening s)"
  using assms
  by (cases e) (auto simp add: handler_defs Let_def split: option.splits)

theorem update_available_transition_witness:
  "\<not> updateAvailable (mount True initial)
   \<and> updateAvailable (step (Ready (Some 7)) (mount True initial))
   \<and> \<not> updateAvailable (run [Ready None, UpdateFound (Some 7)] (mount True initial))
   \<and> \<not> updateAvailable (step (StateChange 7 ''installed'' False (Some 7))
         (run [Ready None, UpdateFound (Some 7)] (mount True initial)))
   \<and> updateAvailable (step (StateChange 7 ''installed'' True (Some 7))
         (run [Ready None, UpdateFound (Some 7)] (mount True initial)))"
  using update_available_transition [of "mount True initial" "Ready (Some 7)"]
    update_available_transition [of "run [Ready None, UpdateFound (Some 7)] (mount True initial)"
       "StateChange 7 ''installed'' False (Some 7)"]
    update_available_transition [of "run [Ready None, UpdateFound (Some 7)] (mount True initial)"
       "StateChange 7 ''installed'' True (Some 7)"]
  by (simp add: mount_def initial_def handler_defs)

section \<open>Properties of the install prompt controller\<close>

text \<open>
  C9. On every invocation of the install prompt the caller's callback is applied exactly
  once: to the user's choice when the choice resolves, and to \<open>dismissed\<close> when
  prompting throws or the choice is rejected; a choice is one of \<open>accepted\<close> and
  \<open>dismissed\<close>. The component hides itself on every path. With the callback
  \<^verbatim>\<open>App\<close> passes, the stored event is discarded on every path and the install button is
  gone afterwards, so the prompt cannot be invoked again.
\<close>

theorem install_prompt_single_use:
  "handleInstall (Some f) r (a, v)
     = (f (case r of Choice c \<Rightarrow> c | PromptThrows \<Rightarrow> dismissed | UserChoiceRejects \<Rightarrow> dismissed) a,
        False)
   \<and> handleInstall (Some f) PromptThrows (a, v) = (f dismissed a, False)
   \<and> handleInstall (Some f) UserChoiceRejects (a, v) = (f dismissed a, False)
   \<and> handleInstall (Some f) (Choice accepted) (a, v) = (f accepted a, False)
   \<and> handleInstall (Some f) (Choice dismissed) (a, v) = (f dismissed a, False)
   \<and> (c = accepted \<or> c = dismissed)
   \<and> deferredPromptRef (fst (handleInstall (Some handleInstallChoice) r (b, v))) = None
   \<and> \<not> showInstallPrompt (fst (handleInstall (Some handleInstallChoice) r (b, v)))
   \<and> \<not> installButtonShown (handleInstall (Some handleInstallChoice) r (b, v))"
  by (cases c; cases r)
     (simp_all add: handleInstall_def callOptional_def handleInstallChoice_def
        installButtonShown_def Let_def)

section \<open>Properties of the service worker script\<close>

lemma evaluateScript_listener:
  "messageListener (evaluateScript accepts imp m) \<longleftrightarrow>
     imp = Imported False \<or> (imp = Imported True \<and> accepts (precacheManifest m))"
  by (cases imp) (simp_all add: evaluateScript_def noRegistrations_def)

text \<open>
  C10, as stated: even when the toolkit fails to load, a \<^verbatim>\<open>SKIP_WAITING\<close> message still
  triggers \<^verbatim>\<open>skipWaiting\<close>, so that the hand-off works independently of the caching
  layer. It fails for the load failure in which \<^verbatim>\<open>importScripts\<close> throws: the evaluation
  stops at line 3, no listener is added, and the message changes nothing. It fails in the
  same way when the toolkit is present and its \<^verbatim>\<open>precacheAndRoute\<close> throws at line 30.
\<close>

theorem import_throws_counterexample:
  "\<not> messageListener (evaluateScript (\<lambda>m. True) ImportThrows None)
   \<and> routes (evaluateScript (\<lambda>m. True) ImportThrows None) = []
   \<and> dispatchMessage (evaluateScript (\<lambda>m. True) ImportThrows None) (Some ''SKIP_WAITING'') 0 = 0
   \<and> \<not> messageListener (evaluateScript (\<lambda>m. False) (Imported True) None)
   \<and> dispatchMessage (evaluateScript (\<lambda>m. False) (Imported True) None)
         (Some ''SKIP_WAITING'') 0 = 0"
  by (simp add: evaluateScript_def noRegistrations_def dispatchMessage_def)

text \<open>
  C10, amended. When \<^verbatim>\<open>importScripts\<close> returns without defining the toolkit, the script
  registers no precache, no route, no queue and no catch handler (a fetch event is not
  answered and a replay opportunity does nothing), and the \<^verbatim>\<open>message\<close> listener is
  registered all the same: a \<^verbatim>\<open>SKIP_WAITING\<close> message calls \<^verbatim>\<open>skipWaiting\<close>. In
  general the message calls \<^verbatim>\<open>skipWaiting\<close> exactly when the evaluation of the script
  reached its end, that is, when \<^verbatim>\<open>importScripts\<close> returned and, with the toolkit
  present, \<^verbatim>\<open>precacheAndRoute\<close> returned too; when \<^verbatim>\<open>importScripts\<close> throws it does
  not.
\<close>

theorem skip_waiting_without_toolkit:
  "precached (evaluateScript accepts (Imported False) m) = None
   \<and> routes (evaluateScript accepts (Imported False) m) = []
   \<and> syncQueue (evaluateScript accepts (Imported False) m) = None
   \<and> \<not> catchHandlerSet (evaluateScript accepts (Imported False) m)
   \<and> handleRequest tk (evaluateScript accepts (Imported False) m) self_origin cachedPage now r
        net st = (None, st)
   \<and> onSync (evaluateScript accepts (Imported False) m) now fetchOk st = (st, [])
   \<and> dispatchMessage (evaluateScript accepts (Imported False) m) (Some ''SKIP_WAITING'') n
       = Suc n
   \<and> (dispatchMessage (evaluateScript accepts imp m) (Some ''SKIP_WAITING'') n = Suc n
        \<longleftrightarrow> imp = Imported False \<or> (imp = Imported True \<and> accepts (precacheManifest m)))
   \<and> dispatchMessage (evaluateScript accepts ImportThrows m) (Some ''SKIP_WAITING'') n = n"
proof -
  have "dispatchMessage (evaluateScript accepts imp m) (Some ''SKIP_WAITING'') n = Suc n
        \<longleftrightarrow> imp = Imported False \<or> (imp = Imported True \<and> accepts (precacheManifest m))"
    using evaluateScript_listener [of accepts imp m]
    by (simp add: dispatchMessage_def onMessage_def)
  then show ?thesis
    by (simp add: evaluateScript_def noRegistrations_def handleRequest_def
          findMatchingRoute_def onSync_def dispatchMessage_def onMessage_def)
qed

lemma startsWith_iff: "startsWith s p \<longleftrightarrow> (\<exists>post. s = p @ post)"
  by (induction s p rule: startsWith.induct) auto

lemma includes_str_iff: "includes_str s p \<longleftrightarrow> (\<exists>pre post. s = pre @ p @ post)"
proof (induction s)
  case Nil
  then show ?case by auto
next
  case (Cons c cs)
  show ?case
  proof
    assume "includes_str (c # cs) p"
    then consider "startsWith (c # cs) p" | "includes_str cs p" by auto
    then show "\<exists>pre post. c # cs = pre @ p @ post"
    proof cases
      case 1
      then obtain post where "c # cs = p @ post" using startsWith_iff by blast
      then have "c # cs = [] @ p @ post" by simp
      then show ?thesis by blast
    next
      case 2
      then obtain pre post where "cs = pre @ p @ post" using Cons.IH by blast
      then have "c # cs = (c # pre) @ p @ post" by simp
      then show ?thesis by blast
    qed
  next
    assume "\<exists>pre post. c # cs = pre @ p @ post"
    then obtain pre post where eq: "c # cs = pre @ p @ post" by blast
    show "includes_str (c # cs) p"
    proof (cases pre)
      case Nil
      with eq have "startsWith (c # cs) p" using startsWith_iff by auto
      then show ?thesis by simp
    next
      case (Cons d ds)
      with eq have "cs = ds @ p @ post" by simp
      then have "includes_str cs p" using Cons.IH by blast
      then show ?thesis by simp
    qed
  qed
qed

lemma offline_body:
  \<open>JSON_stringify [(''error'', ''offline''),
      (''message'', ''This content is unavailable while you are offline.'')]
   = ''{"error":"offline","message":"This content is unavailable while you are offline."}''\<close>
  by (simp add: JSON_stringify_def quoted_def)

text \<open>
  C5. The catch handler answers a document request with the cached offline page if there
  is one and with a network error otherwise; any other request whose Accept header contains
  \<^verbatim>\<open>application/json\<close> with status 503, a JSON content type and the fixed offline body;
  every remaining request with a network error.
\<close>

theorem catch_handler_cases:
  \<open>catchHandler cachedPage r =
     (if destination r = ''document''
      then (case cachedPage of Some page \<Rightarrow> Reply page | None \<Rightarrow> ResponseError)
      else if (\<exists>a pre post. accept r = Some a \<and> a = pre @ ''application/json'' @ post)
      then Reply \<lparr> status = 503, headers = [(''Content-Type'', ''application/json'')],
             body = ''{"error":"offline","message":"This content is unavailable while you are offline."}'' \<rparr>
      else ResponseError)\<close>
  unfolding catchHandler_def offline_body
  by (cases "accept r") (simp_all add: includes_str_iff)

section \<open>Properties of the caching strategies as configured\<close>

lemma expireEntries_subset: "set (expireEntries opts now es) \<subseteq> set es"
proof -
  have "set (drop n (filter P es)) \<subseteq> set es" for n and P :: "cache_entry \<Rightarrow> bool"
    using set_drop_subset [of n "filter P es"] by auto
  moreover have "set (drop n es) \<subseteq> set es" for n
    by (rule set_drop_subset)
  ultimately show ?thesis
    by (simp add: expireEntries_def Let_def split: option.splits)
qed

lemma expireEntries_length: "length (expireEntries opts now es) \<le> maxEntries opts"
  by (simp add: expireEntries_def Let_def split: option.splits)

lemma cachePut_entries:
  assumes "e \<in> set (cachePut opts now r resp es)"
  shows "e \<in> set es \<or> (stored e = resp \<and> status resp \<in> set (statuses opts))"
proof (cases "cacheWillUpdate (statuses opts) resp")
  case True
  with assms have "e \<in> set (expireEntries opts now (filter (\<lambda>e. key e \<noteq> cacheKey r) es
                @ [\<lparr> key = cacheKey r, stored = resp, insertedAt = now \<rparr>]))"
    by (simp add: cachePut_def)
  then have "e \<in> set (filter (\<lambda>e. key e \<noteq> cacheKey r) es
                @ [\<lparr> key = cacheKey r, stored = resp, insertedAt = now \<rparr>])"
    using expireEntries_subset by blast
  with True show ?thesis by (auto simp add: cacheWillUpdate_def)
next
  case False
  with assms show ?thesis by (simp add: cachePut_def)
qed

lemma cachePut_not_allowed:
  "status resp \<notin> set (statuses opts) \<Longrightarrow> cachePut opts now r resp es = es"
  by (simp add: cachePut_def cacheWillUpdate_def)

lemma cachePut_length:
  "length es \<le> maxEntries opts \<Longrightarrow> length (cachePut opts now r resp es) \<le> maxEntries opts"
  by (simp add: cachePut_def expireEntries_length)

lemma networkFirst_entries:
  "e \<in> set (snd (networkFirst opts t now r net es)) \<Longrightarrow>
     e \<in> set es \<or> status (stored e) \<in> set (statuses opts)"
  using cachePut_entries [of e opts now r _ es]
  by (auto simp add: networkFirst_def split: network.splits if_splits option.splits)

lemma staleWhileRevalidate_entries:
  "e \<in> set (snd (staleWhileRevalidate opts now r net es)) \<Longrightarrow>
     e \<in> set es \<or> status (stored e) \<in> set (statuses opts)"
  using cachePut_entries [of e opts now r _ es]
  by (auto simp add: staleWhileRevalidate_def Let_def split: network.splits option.splits)

lemma cacheFirst_entries:
  "e \<in> set (snd (cacheFirst opts now r net es)) \<Longrightarrow>
     e \<in> set es \<or> status (stored e) \<in> set (statuses opts)"
  using cachePut_entries [of e opts now r _ es]
  by (auto simp add: cacheFirst_def split: network.splits option.splits)

lemma networkFirst_unchanged:
  "(case net of Throws \<Rightarrow> True | Answers elapsed resp \<Rightarrow> status resp \<notin> set (statuses opts))
     \<Longrightarrow> snd (networkFirst opts t now r net es) = es"
  by (auto simp add: networkFirst_def cachePut_not_allowed split: network.splits option.splits)

lemma staleWhileRevalidate_unchanged:
  "(case net of Throws \<Rightarrow> True | Answers elapsed resp \<Rightarrow> status resp \<notin> set (statuses opts))
     \<Longrightarrow> snd (staleWhileRevalidate opts now r net es) = es"
  by (auto simp add: staleWhileRevalidate_def cachePut_not_allowed Let_def
        split: network.splits option.splits)

lemma cacheFirst_unchanged:
  "(case net of Throws \<Rightarrow> True | Answers elapsed resp \<Rightarrow> status resp \<notin> set (statuses opts))
     \<Longrightarrow> snd (cacheFirst opts now r net es) = es"
  by (auto simp add: cacheFirst_def cachePut_not_allowed split: network.splits option.splits)

lemma networkFirst_length:
  "length es \<le> maxEntries opts \<Longrightarrow>
     length (snd (networkFirst opts t now r net es)) \<le> maxEntries opts"
  by (simp add: networkFirst_def cachePut_length split: network.splits option.splits)

text \<open>Every strategy that writes a cache is configured with the statuses 0 and 200.\<close>

lemma route_statuses:
  "routeStrategy rid = NetworkFirst opts t \<or> routeStrategy rid = StaleWhileRevalidate opts
     \<or> routeStrategy rid = CacheFirst opts \<Longrightarrow> statuses opts = [0, 200]"
  by (cases rid) auto

lemma runStrategy_entries:
  assumes "e \<in> set (caches (snd (runStrategy tk now r net (routeStrategy rid) st)) ns)"
  shows "e \<in> set (caches st ns) \<or> status (stored e) = 0 \<or> status (stored e) = 200"
proof (cases "routeStrategy rid")
  case PrecacheStrategy
  with assms show ?thesis by simp
next
  case (NetworkFirst opts t)
  then have "statuses opts = [0, 200]" using route_statuses by blast
  with assms NetworkFirst networkFirst_entries [of e opts t now r net "caches st (cacheName opts)"]
  show ?thesis by (auto split: prod.splits if_splits)
next
  case (StaleWhileRevalidate opts)
  then have "statuses opts = [0, 200]" using route_statuses by blast
  with assms StaleWhileRevalidate
    staleWhileRevalidate_entries [of e opts now r net "caches st (cacheName opts)"]
  show ?thesis by (auto split: prod.splits if_splits)
next
  case (CacheFirst opts)
  then have "statuses opts = [0, 200]" using route_statuses by blast
  with assms CacheFirst cacheFirst_entries [of e opts now r net "caches st (cacheName opts)"]
  show ?thesis by (auto split: prod.splits if_splits)
next
  case (NetworkOnly q ret)
  with assms show ?thesis by (auto split: prod.splits)
qed

lemma runStrategy_unchanged:
  assumes "case net of Throws \<Rightarrow> True
           | Answers elapsed resp \<Rightarrow> status resp \<noteq> 0 \<and> status resp \<noteq> 200"
  shows "caches (snd (runStrategy tk now r net (routeStrategy rid) st)) = caches st"
proof (cases "routeStrategy rid")
  case PrecacheStrategy
  then show ?thesis by simp
next
  case (NetworkFirst opts t)
  then have "statuses opts = [0, 200]" using route_statuses by blast
  with assms have "snd (networkFirst opts t now r net (caches st (cacheName opts)))
                 = caches st (cacheName opts)"
    by (intro networkFirst_unchanged) (simp split: network.splits)
  with NetworkFirst show ?thesis by (auto split: prod.splits)
next
  case (StaleWhileRevalidate opts)
  then have "statuses opts = [0, 200]" using route_statuses by blast
  with assms have "snd (staleWhileRevalidate opts now r net (caches st (cacheName opts)))
                 = caches st (cacheName opts)"
    by (intro staleWhileRevalidate_unchanged) (simp split: network.splits)
  with StaleWhileRevalidate show ?thesis by (auto split: prod.splits)
next
  case (CacheFirst opts)
  then have "statuses opts = [0, 200]" using route_statuses by blast
  with assms have "snd (cacheFirst opts now r net (caches st (cacheName opts)))
                 = caches st (cacheName opts)"
    by (intro cacheFirst_unchanged) (simp split: network.splits)
  with CacheFirst show ?thesis by (auto split: prod.splits)
next
  case (NetworkOnly q ret)
  then show ?thesis by (auto split: prod.splits)
qed

lemma handleRequest_state:
  "snd (handleRequest tk g so cp now r net st) = st
   \<or> (\<exists>rid. snd (handleRequest tk g so cp now r net st)
          = snd (runStrategy tk now r net (routeStrategy rid) st))"
proof (cases "findMatchingRoute (precacheMatch tk) so (routes g) r")
  case None
  then show ?thesis by (simp add: handleRequest_def)
next
  case (Some rid)
  then have "snd (handleRequest tk g so cp now r net st)
          = snd (runStrategy tk now r net (routeStrategy rid) st)"
    by (simp add: handleRequest_def split: prod.splits option.splits)
  then show ?thesis by blast
qed

text \<open>
  C1. Whatever request the worker handles and whatever the network does, an entry found
  afterwards in any namespace the strategies write (pages, static, media, api) was there
  before or holds a response of status 0 or 200; and when the network throws or answers
  with any other status, no namespace changes.
\<close>

theorem only_allowed_statuses_persisted:
  "(e \<in> set (caches (snd (handleRequest tk (evaluateScript accepts imp m) self_origin cachedPage
                             now r net st)) ns)
      \<longrightarrow> e \<in> set (caches st ns) \<or> status (stored e) = 0 \<or> status (stored e) = 200)
   \<and> ((net = Throws \<or> (\<exists>elapsed resp. net = Answers elapsed resp
                            \<and> status resp \<noteq> 0 \<and> status resp \<noteq> 200))
      \<longrightarrow> caches (snd (handleRequest tk (evaluateScript accepts imp m) self_origin cachedPage
                          now r net st)) = caches st)"
proof (intro conjI impI)
  assume "e \<in> set (caches (snd (handleRequest tk (evaluateScript accepts imp m) self_origin
                                   cachedPage now r net st)) ns)"
  then show "e \<in> set (caches st ns) \<or> status (stored e) = 0 \<or> status (stored e) = 200"
    using handleRequest_state [of tk "evaluateScript accepts imp m" self_origin cachedPage now r net st]
      runStrategy_entries [of e tk now r net _ st ns]
    by auto
next
  assume "net = Throws \<or> (\<exists>elapsed resp. net = Answers elapsed resp
                            \<and> status resp \<noteq> 0 \<and> status resp \<noteq> 200)"
  then have "case net of Throws \<Rightarrow> True
             | Answers elapsed resp \<Rightarrow> status resp \<noteq> 0 \<and> status resp \<noteq> 200"
    by auto
  then show "caches (snd (handleRequest tk (evaluateScript accepts imp m) self_origin cachedPage
                          now r net st)) = caches st"
    using handleRequest_state [of tk "evaluateScript accepts imp m" self_origin cachedPage now r net st]
      runStrategy_unchanged [of net tk now r _ st]
    by auto
qed

theorem only_allowed_statuses_persisted_witness:
  "\<lparr> key = (''https://shop.example/dashboard'', ''GET''),
      stored = \<lparr> status = 200, headers = [], body = ''page'' \<rparr>, insertedAt = 1000 \<rparr>
     \<in> set (caches (snd (handleRequest
           \<lparr> precacheMatch = (\<lambda>r. False), precacheHandle = (\<lambda>r net. None) \<rparr>
           (evaluateScript (\<lambda>m. True) (Imported True) None) ''https://shop.example'' None 1000
           \<lparr> href = ''https://shop.example/dashboard'', origin = ''https://shop.example'',
              pathname = ''/dashboard'', requestMethod = ''GET'', mode = ''navigate'',
              destination = ''document'', accept = None \<rparr>
           (Answers 100 \<lparr> status = 200, headers = [], body = ''page'' \<rparr>)
           \<lparr> caches = (\<lambda>name. []), queue = [] \<rparr>)) ''irshados-pages'')
   \<and> caches (snd (handleRequest
           \<lparr> precacheMatch = (\<lambda>r. False), precacheHandle = (\<lambda>r net. None) \<rparr>
           (evaluateScript (\<lambda>m. True) (Imported True) None) ''https://shop.example'' None 1000
           \<lparr> href = ''https://shop.example/dashboard'', origin = ''https://shop.example'',
              pathname = ''/dashboard'', requestMethod = ''GET'', mode = ''navigate'',
              destination = ''document'', accept = None \<rparr>
           (Answers 100 \<lparr> status = 404, headers = [], body = ''missing'' \<rparr>)
           \<lparr> caches = (\<lambda>name. []), queue = [] \<rparr>)) = (\<lambda>name. [])"
  using only_allowed_statuses_persisted
    [of "\<lparr> key = (''https://shop.example/dashboard'', ''GET''),
      stored = \<lparr> status = 200, headers = [], body = ''page'' \<rparr>, insertedAt = 1000 \<rparr>"
      "\<lparr> precacheMatch = (\<lambda>r. False), precacheHandle = (\<lambda>r net. None) \<rparr>"
      "\<lambda>m. True" "Imported True" None "''https://shop.example''" None 1000
      "\<lparr> href = ''https://shop.example/dashboard'', origin = ''https://shop.example'',
              pathname = ''/dashboard'', requestMethod = ''GET'', mode = ''navigate'',
              destination = ''document'', accept = None \<rparr>"
      "Answers 100 \<lparr> status = 200, headers = [], body = ''page'' \<rparr>"
      "\<lparr> caches = (\<lambda>name. []), queue = [] \<rparr>" "''irshados-pages''"]
    only_allowed_statuses_persisted
    [of _
      "\<lparr> precacheMatch = (\<lambda>r. False), precacheHandle = (\<lambda>r net. None) \<rparr>"
      "\<lambda>m. True" "Imported True" None "''https://shop.example''" None 1000
      "\<lparr> href = ''https://shop.example/dashboard'', origin = ''https://shop.example'',
              pathname = ''/dashboard'', requestMethod = ''GET'', mode = ''navigate'',
              destination = ''document'', accept = None \<rparr>"
      "Answers 100 \<lparr> status = 404, headers = [], body = ''missing'' \<rparr>"
      "\<lparr> caches = (\<lambda>name. []), queue = [] \<rparr>"]
  by (simp add: handleRequest_def evaluateScript_def registeredRoutes_def findMatchingRoute_def
        networkFirst_def cachePut_def cacheWillUpdate_def expireEntries_def cacheKey_def)

section \<open>Properties of the offline mutation queue as configured\<close>



lemma onSync_configured:
  "accepts (precacheManifest m) \<Longrightarrow>
   onSync (evaluateScript accepts (Imported True) m) now fetchOk st =
     (st\<lparr> queue := fst (replayRequests maxRetentionTime now fetchOk (queue st)) \<rparr>,
      snd (replayRequests maxRetentionTime now fetchOk (queue st)))"
  by (simp add: onSync_def evaluateScript_def split: prod.splits)

text \<open>
  The shape of one replay pass. The queue splits into the entries the pass removed and the
  entries it left. A removed entry was past the window or its replay succeeded. The
  attempts are the removed entries within the window, in queue order and all successful,
  followed, when entries are left, by the one failed replay of the first entry left.
\<close>

lemma replay_shape:
  "\<exists>removed. q = removed @ fst (replayRequests retention now fetchOk q)
     \<and> (\<forall>e \<in> set removed. expired retention now e \<or> fetchOk (snapshot e))
     \<and> snd (replayRequests retention now fetchOk q)
         = map (\<lambda>e. (e, True)) (filter (\<lambda>e. \<not> expired retention now e) removed)
           @ (case fst (replayRequests retention now fetchOk q) of
                [] \<Rightarrow> []
              | e # rest \<Rightarrow> [(e, False)])"
proof (induction q)
  case Nil
  then show ?case by simp
next
  case (Cons x q)
  then obtain removed where r: "q = removed @ fst (replayRequests retention now fetchOk q)"
     "\<forall>e \<in> set removed. expired retention now e \<or> fetchOk (snapshot e)"
     "snd (replayRequests retention now fetchOk q)
         = map (\<lambda>e. (e, True)) (filter (\<lambda>e. \<not> expired retention now e) removed)
           @ (case fst (replayRequests retention now fetchOk q) of
                [] \<Rightarrow> []
              | e # rest \<Rightarrow> [(e, False)])"
    by blast
  show ?case
  proof (cases "expired retention now x \<or> fetchOk (snapshot x)")
    case True
    with r show ?thesis
      by (intro exI [of _ "x # removed"]) (auto split: prod.splits list.splits)
  next
    case False
    then show ?thesis
      by (intro exI [of _ "[]"]) simp
  qed
qed

lemma post_route_found:
  "accepts (precacheManifest m) \<Longrightarrow> origin r = self_origin \<Longrightarrow> requestMethod r = ''POST'' \<Longrightarrow>
     findMatchingRoute pm self_origin (routes (evaluateScript accepts (Imported True) m)) r = Some PostRoute"
  by (simp add: findMatchingRoute_def evaluateScript_def registeredRoutes_def)








text \<open>
  C3, as stated: an entry leaves the queue only on a confirmed successful replay. It fails:
  a replay opportunity one millisecond after the window removes an entry enqueued at time 0
  although no replay was attempted.
\<close>

theorem expired_entry_removed_counterexample:
  "onSync (evaluateScript (\<lambda>m. True) (Imported True) None) 86400001 (\<lambda>r. True)
     \<lparr> caches = (\<lambda>name. []),
        queue = [\<lparr> snapshot =
                   \<lparr> href = ''https://shop.example/api/orders'', origin = ''https://shop.example'',
                      pathname = ''/api/orders'', requestMethod = ''POST'', mode = ''cors'',
                      destination = [], accept = Some ''application/json'' \<rparr>,
                   enqueuedAt = 0 \<rparr>] \<rparr>
   = (\<lparr> caches = (\<lambda>name. []), queue = [] \<rparr>, [])"
  by (simp add: onSync_def evaluateScript_def maxRetentionTime_def expired_def)

text \<open>
  C3, amended. Once the script has registered its routes: a same-origin POST whose network
  attempt throws appends exactly one entry, the request with the current time, at the end
  of the queue, and the request is handed to the catch handler; a POST that is answered, with whatever status, leaves the queue as it
  is. A replay pass splits the queue into a removed front part and the part left. Every
  removed entry was past the retention window or its replay succeeded; the replays
  attempted are the removed entries within the window, in queue order, and, when entries
  are left, one failed replay of the first entry left, which stays queued.
\<close>

theorem post_queue_enqueue_and_replay:
  assumes "accepts (precacheManifest m)"
    and "origin r = self_origin" and "requestMethod r = ''POST''"
  shows "handleRequest tk (evaluateScript accepts (Imported True) m) self_origin cachedPage now r Throws st
           = (Some (catchHandler cachedPage r),
              st\<lparr> queue := queue st @ [\<lparr> snapshot = r, enqueuedAt = now \<rparr>] \<rparr>)
       \<and> handleRequest tk (evaluateScript accepts (Imported True) m) self_origin cachedPage now r
            (Answers elapsed resp) st = (Some (Reply resp), st)
       \<and> (\<exists>removed.
             queue st = removed @ queue (fst (onSync (evaluateScript accepts (Imported True) m) later fetchOk st))
           \<and> (\<forall>e \<in> set removed. expired maxRetentionTime later e \<or> fetchOk (snapshot e))
           \<and> snd (onSync (evaluateScript accepts (Imported True) m) later fetchOk st)
               = map (\<lambda>e. (e, True)) (filter (\<lambda>e. \<not> expired maxRetentionTime later e) removed)
                 @ (case queue (fst (onSync (evaluateScript accepts (Imported True) m) later fetchOk st)) of
                      [] \<Rightarrow> []
                    | e # rest \<Rightarrow> [(e, False)]))"
proof (intro conjI)
  show "handleRequest tk (evaluateScript accepts (Imported True) m) self_origin cachedPage now r Throws st
           = (Some (catchHandler cachedPage r),
              st\<lparr> queue := queue st @ [\<lparr> snapshot = r, enqueuedAt = now \<rparr>] \<rparr>)"
    using assms by (simp add: handleRequest_def post_route_found networkOnly_def)
next
  show "handleRequest tk (evaluateScript accepts (Imported True) m) self_origin cachedPage now r
            (Answers elapsed resp) st = (Some (Reply resp), st)"
    using assms by (simp add: handleRequest_def post_route_found networkOnly_def)
next
  show "\<exists>removed.
             queue st = removed @ queue (fst (onSync (evaluateScript accepts (Imported True) m) later fetchOk st))
           \<and> (\<forall>e \<in> set removed. expired maxRetentionTime later e \<or> fetchOk (snapshot e))
           \<and> snd (onSync (evaluateScript accepts (Imported True) m) later fetchOk st)
               = map (\<lambda>e. (e, True)) (filter (\<lambda>e. \<not> expired maxRetentionTime later e) removed)
                 @ (case queue (fst (onSync (evaluateScript accepts (Imported True) m) later fetchOk st)) of
                      [] \<Rightarrow> []
                    | e # rest \<Rightarrow> [(e, False)])"
    using replay_shape [of "queue st" maxRetentionTime later fetchOk] assms(1)
      onSync_configured [of accepts m later fetchOk st]
    by simp
qed

theorem post_queue_enqueue_and_replay_witness:
  "origin \<lparr> href = ''https://shop.example/api/orders'', origin = ''https://shop.example'',
            pathname = ''/api/orders'', requestMethod = ''POST'', mode = ''cors'',
            destination = [], accept = None \<rparr> = ''https://shop.example''
   \<and> requestMethod \<lparr> href = ''https://shop.example/api/orders'',
            origin = ''https://shop.example'', pathname = ''/api/orders'',
            requestMethod = ''POST'', mode = ''cors'', destination = [], accept = None \<rparr>
       = ''POST''
   \<and> handleRequest \<lparr> precacheMatch = (\<lambda>r. False), precacheHandle = (\<lambda>r net. None) \<rparr>
        (evaluateScript (\<lambda>m. True) (Imported True) None) ''https://shop.example'' None 7
        \<lparr> href = ''https://shop.example/api/orders'', origin = ''https://shop.example'',
          pathname = ''/api/orders'', requestMethod = ''POST'', mode = ''cors'',
          destination = [], accept = None \<rparr>
        Throws \<lparr> caches = (\<lambda>name. []), queue = [] \<rparr>
       = (Some ResponseError,
          \<lparr> caches = (\<lambda>name. []),
            queue = [\<lparr> snapshot =
                        \<lparr> href = ''https://shop.example/api/orders'',
                          origin = ''https://shop.example'', pathname = ''/api/orders'',
                          requestMethod = ''POST'', mode = ''cors'', destination = [],
                          accept = None \<rparr>,
                       enqueuedAt = 7 \<rparr>] \<rparr>)
   \<and> onSync (evaluateScript (\<lambda>m. True) (Imported True) None) 9000 (\<lambda>r. pathname r = ''/api/orders'')
        \<lparr> caches = (\<lambda>name. []),
          queue = [\<lparr> snapshot = \<lparr> href = ''https://shop.example/api/orders'',
                       origin = ''https://shop.example'', pathname = ''/api/orders'',
                       requestMethod = ''POST'', mode = ''cors'', destination = [],
                       accept = None \<rparr>, enqueuedAt = 7 \<rparr>,
                   \<lparr> snapshot = \<lparr> href = ''https://shop.example/api/cart'',
                       origin = ''https://shop.example'', pathname = ''/api/cart'',
                       requestMethod = ''POST'', mode = ''cors'', destination = [],
                       accept = None \<rparr>, enqueuedAt = 8 \<rparr>,
                   \<lparr> snapshot = \<lparr> href = ''https://shop.example/api/orders'',
                       origin = ''https://shop.example'', pathname = ''/api/orders'',
                       requestMethod = ''POST'', mode = ''cors'', destination = [],
                       accept = None \<rparr>, enqueuedAt = 9 \<rparr>] \<rparr>
       = (\<lparr> caches = (\<lambda>name. []),
            queue = [\<lparr> snapshot = \<lparr> href = ''https://shop.example/api/cart'',
                       origin = ''https://shop.example'', pathname = ''/api/cart'',
                       requestMethod = ''POST'', mode = ''cors'', destination = [],
                       accept = None \<rparr>, enqueuedAt = 8 \<rparr>,
                     \<lparr> snapshot = \<lparr> href = ''https://shop.example/api/orders'',
                       origin = ''https://shop.example'', pathname = ''/api/orders'',
                       requestMethod = ''POST'', mode = ''cors'', destination = [],
                       accept = None \<rparr>, enqueuedAt = 9 \<rparr>] \<rparr>,
          [(\<lparr> snapshot = \<lparr> href = ''https://shop.example/api/orders'',
                       origin = ''https://shop.example'', pathname = ''/api/orders'',
                       requestMethod = ''POST'', mode = ''cors'', destination = [],
                       accept = None \<rparr>, enqueuedAt = 7 \<rparr>, True),
           (\<lparr> snapshot = \<lparr> href = ''https://shop.example/api/cart'',
                       origin = ''https://shop.example'', pathname = ''/api/cart'',
                       requestMethod = ''POST'', mode = ''cors'', destination = [],
                       accept = None \<rparr>, enqueuedAt = 8 \<rparr>, False)])"
proof -
  have h: "origin \<lparr> href = ''https://shop.example/api/orders'',
            origin = ''https://shop.example'', pathname = ''/api/orders'',
            requestMethod = ''POST'', mode = ''cors'', destination = [], accept = None \<rparr>
           = ''https://shop.example''"
    "requestMethod \<lparr> href = ''https://shop.example/api/orders'',
            origin = ''https://shop.example'', pathname = ''/api/orders'',
            requestMethod = ''POST'', mode = ''cors'', destination = [], accept = None \<rparr>
       = ''POST''"
    by simp_all
  have a: "(\<lambda>m. True) (precacheManifest None)"
    by simp
  show ?thesis
    using post_queue_enqueue_and_replay [of "\<lambda>m. True" None, OF a h, THEN conjunct1,
        of "\<lparr> precacheMatch = (\<lambda>r. False), precacheHandle = (\<lambda>r net. None) \<rparr>"
           None 7 "\<lparr> caches = (\<lambda>name. []), queue = [] \<rparr>"]
    by (simp add: catchHandler_def onSync_def evaluateScript_def maxRetentionTime_def
          expired_def)
qed

section \<open>Properties of the navigation route as configured\<close>

lemma navigation_route_found:
  "accepts (precacheManifest m) \<Longrightarrow> mode r = ''navigate'' \<Longrightarrow> requestMethod r = ''GET'' \<Longrightarrow>
     \<not> pm r \<Longrightarrow>
     findMatchingRoute pm self_origin (routes (evaluateScript accepts (Imported True) m)) r
       = Some NavigationRoute"
  by (simp add: findMatchingRoute_def evaluateScript_def registeredRoutes_def)

lemma networkFirst_written_length:
  "cacheWillUpdate (statuses opts) resp \<Longrightarrow>
     length (snd (networkFirst opts t now r (Answers elapsed resp) es)) \<le> maxEntries opts"
  by (simp add: networkFirst_def cachePut_def expireEntries_length split: option.splits)

text \<open>
  C6, as stated: for every navigation request answered within the timeout the live
  response is returned and written to the pages namespace, and on network failure or
  timeout the request falls through to the catch handler. It fails in five ways, one per
  conjunct below. A response of status 404 that arrives after 100 ms is returned and the
  pages namespace stays empty. When the network throws while the namespace holds an entry
  for the request, the answer is that entry, where the catch handler would have answered
  with the offline page. When the network answers after 6 seconds and the namespace holds
  no entry for the request, the answer is the late live response, which is also written.
  A navigation by POST to the same origin is taken by the Network-Only route: its live
  response of status 200 is not written. And a navigation to \<^verbatim>\<open>/\<close>, which the script
  precaches (line 18), is answered by the precache route when that route takes it, not by
  the live response.
\<close>

theorem navigation_not_written_counterexample:
  "handleRequest \<lparr> precacheMatch = (\<lambda>r. False), precacheHandle = (\<lambda>r net. None) \<rparr>
          (evaluateScript (\<lambda>m. True) (Imported True) None) ''https://shop.example'' None 1000
          \<lparr> href = ''https://shop.example/dashboard'', origin = ''https://shop.example'',
            pathname = ''/dashboard'', requestMethod = ''GET'', mode = ''navigate'',
            destination = ''document'', accept = None \<rparr>
          (Answers 100 \<lparr> status = 404, headers = [], body = ''missing'' \<rparr>)
          \<lparr> caches = (\<lambda>name. []), queue = [] \<rparr>
     = (Some (Reply \<lparr> status = 404, headers = [], body = ''missing'' \<rparr>),
        \<lparr> caches = (\<lambda>name. []), queue = [] \<rparr>)
   \<and> fst (handleRequest \<lparr> precacheMatch = (\<lambda>r. False), precacheHandle = (\<lambda>r net. None) \<rparr>
          (evaluateScript (\<lambda>m. True) (Imported True) None) ''https://shop.example''
          (Some \<lparr> status = 200, headers = [], body = ''offline page'' \<rparr>) 2000
          \<lparr> href = ''https://shop.example/dashboard'', origin = ''https://shop.example'',
            pathname = ''/dashboard'', requestMethod = ''GET'', mode = ''navigate'',
            destination = ''document'', accept = None \<rparr>
          Throws
          \<lparr> caches = (\<lambda>name. if name = ''irshados-pages''
                   then [\<lparr> key = (''https://shop.example/dashboard'', ''GET''),
                           stored = \<lparr> status = 200, headers = [], body = ''stale page'' \<rparr>,
                           insertedAt = 1000 \<rparr>]
                   else []),
            queue = [] \<rparr>)
     = Some (Reply \<lparr> status = 200, headers = [], body = ''stale page'' \<rparr>)
   \<and> catchHandler (Some \<lparr> status = 200, headers = [], body = ''offline page'' \<rparr>)
          \<lparr> href = ''https://shop.example/dashboard'', origin = ''https://shop.example'',
            pathname = ''/dashboard'', requestMethod = ''GET'', mode = ''navigate'',
            destination = ''document'', accept = None \<rparr>
     = Reply \<lparr> status = 200, headers = [], body = ''offline page'' \<rparr>
   \<and> fst (handleRequest \<lparr> precacheMatch = (\<lambda>r. False), precacheHandle = (\<lambda>r net. None) \<rparr>
          (evaluateScript (\<lambda>m. True) (Imported True) None) ''https://shop.example''
          (Some \<lparr> status = 200, headers = [], body = ''offline page'' \<rparr>) 7000
          \<lparr> href = ''https://shop.example/dashboard'', origin = ''https://shop.example'',
            pathname = ''/dashboard'', requestMethod = ''GET'', mode = ''navigate'',
            destination = ''document'', accept = None \<rparr>
          (Answers 6000 \<lparr> status = 200, headers = [], body = ''late page'' \<rparr>)
          \<lparr> caches = (\<lambda>name. []), queue = [] \<rparr>)
     = Some (Reply \<lparr> status = 200, headers = [], body = ''late page'' \<rparr>)
   \<and> caches (snd (handleRequest
          \<lparr> precacheMatch = (\<lambda>r. False), precacheHandle = (\<lambda>r net. None) \<rparr>
          (evaluateScript (\<lambda>m. True) (Imported True) None) ''https://shop.example''
          (Some \<lparr> status = 200, headers = [], body = ''offline page'' \<rparr>) 7000
          \<lparr> href = ''https://shop.example/dashboard'', origin = ''https://shop.example'',
            pathname = ''/dashboard'', requestMethod = ''GET'', mode = ''navigate'',
            destination = ''document'', accept = None \<rparr>
          (Answers 6000 \<lparr> status = 200, headers = [], body = ''late page'' \<rparr>)
          \<lparr> caches = (\<lambda>name. []), queue = [] \<rparr>)) ''irshados-pages''
     = [\<lparr> key = (''https://shop.example/dashboard'', ''GET''),
          stored = \<lparr> status = 200, headers = [], body = ''late page'' \<rparr>, insertedAt = 7000 \<rparr>]
   \<and> handleRequest \<lparr> precacheMatch = (\<lambda>r. False), precacheHandle = (\<lambda>r net. None) \<rparr>
          (evaluateScript (\<lambda>m. True) (Imported True) None) ''https://shop.example'' None 1000
          \<lparr> href = ''https://shop.example/checkout'', origin = ''https://shop.example'',
            pathname = ''/checkout'', requestMethod = ''POST'', mode = ''navigate'',
            destination = ''document'', accept = None \<rparr>
          (Answers 100 \<lparr> status = 200, headers = [], body = ''receipt'' \<rparr>)
          \<lparr> caches = (\<lambda>name. []), queue = [] \<rparr>
     = (Some (Reply \<lparr> status = 200, headers = [], body = ''receipt'' \<rparr>),
        \<lparr> caches = (\<lambda>name. []), queue = [] \<rparr>)
   \<and> fst (handleRequest
          \<lparr> precacheMatch = (\<lambda>r. pathname r = ''/''),
            precacheHandle = (\<lambda>r net. Some \<lparr> status = 200, headers = [],
                                                 body = ''precached shell'' \<rparr>) \<rparr>
          (evaluateScript (\<lambda>m. True) (Imported True) None) ''https://shop.example'' None 1000
          \<lparr> href = ''https://shop.example/'', origin = ''https://shop.example'',
            pathname = ''/'', requestMethod = ''GET'', mode = ''navigate'',
            destination = ''document'', accept = None \<rparr>
          (Answers 100 \<lparr> status = 200, headers = [], body = ''live shell'' \<rparr>)
          \<lparr> caches = (\<lambda>name. []), queue = [] \<rparr>)
     = Some (Reply \<lparr> status = 200, headers = [], body = ''precached shell'' \<rparr>)"
  by (simp add: handleRequest_def evaluateScript_def registeredRoutes_def findMatchingRoute_def
        networkFirst_def networkOnly_def cachePut_def cacheWillUpdate_def cacheMatch_def
        cacheKey_def expireEntries_def catchHandler_def fun_eq_iff)

text \<open>
  C6, amended. For a GET navigation request that the precache route does not take: when
  the network answers, the pages namespace receives the response, in place of the
  request's earlier entry and with the oldest entries beyond 20 dropped, exactly when its
  status is 0 or 200; no entry is dropped for its age, the namespace holds at most 20
  entries after a write, and one of at most 20 entries stays so. The answer is the live
  response when it arrived within 5 seconds; when it arrived later, the answer is the
  request's own entry in the pages namespace if there is one and the late live response
  otherwise. When the network throws, nothing is written and the answer is the request's
  own entry in the pages namespace if there is one, and the catch handler's otherwise.
\<close>

theorem navigation_network_first:
  assumes "accepts (precacheManifest m)"
    and "mode r = ''navigate''" and "requestMethod r = ''GET''" and "\<not> precacheMatch tk r"
  shows "handleRequest tk (evaluateScript accepts (Imported True) m) self_origin cachedPage now r
              (Answers elapsed resp) st
            = (Some (if elapsed \<le> 5000 then Reply resp
                     else (case cacheMatch (caches st ''irshados-pages'') r of
                             Some cached \<Rightarrow> Reply cached
                           | None \<Rightarrow> Reply resp)),
               st\<lparr> caches := (caches st)(''irshados-pages'' :=
                     (if status resp = 0 \<or> status resp = 200
                      then drop (Suc (length (filter (\<lambda>e. key e \<noteq> (href r, ''GET''))
                                                 (caches st ''irshados-pages''))) - 20)
                             (filter (\<lambda>e. key e \<noteq> (href r, ''GET'')) (caches st ''irshados-pages'')
                                @ [\<lparr> key = (href r, ''GET''), stored = resp, insertedAt = now \<rparr>])
                      else caches st ''irshados-pages'')) \<rparr>)
       \<and> handleRequest tk (evaluateScript accepts (Imported True) m) self_origin cachedPage now r
              Throws st
            = (Some (case cacheMatch (caches st ''irshados-pages'') r of
                       Some cached \<Rightarrow> Reply cached
                     | None \<Rightarrow> catchHandler cachedPage r), st)
       \<and> (status resp = 0 \<or> status resp = 200 \<longrightarrow>
            length (caches (snd (handleRequest tk (evaluateScript accepts (Imported True) m)
                                   self_origin cachedPage now r (Answers elapsed resp) st))
                      ''irshados-pages'') \<le> 20)
       \<and> (length (caches st ''irshados-pages'') \<le> 20 \<longrightarrow>
            length (caches (snd (handleRequest tk (evaluateScript accepts (Imported True) m)
                                   self_origin cachedPage now r net st)) ''irshados-pages'') \<le> 20)"
proof -
  let ?opts = "\<lparr> cacheName = ''irshados-pages'', statuses = [0, 200], maxEntries = 20,
                  maxAgeSeconds = None, purgeOnQuotaError = True \<rparr>"
  have route: "findMatchingRoute (precacheMatch tk) self_origin
                 (routes (evaluateScript accepts (Imported True) m)) r = Some NavigationRoute"
    using assms by (rule navigation_route_found)
  have state: "caches (snd (handleRequest tk (evaluateScript accepts (Imported True) m)
                              self_origin cachedPage now r n st)) ''irshados-pages''
          = snd (networkFirst ?opts 5 now r n (caches st ''irshados-pages''))" for n
    by (simp add: handleRequest_def route split: prod.splits option.splits)
  have 1: "handleRequest tk (evaluateScript accepts (Imported True) m) self_origin cachedPage
              now r (Answers elapsed resp) st
            = (Some (if elapsed \<le> 5000 then Reply resp
                     else (case cacheMatch (caches st ''irshados-pages'') r of
                             Some cached \<Rightarrow> Reply cached
                           | None \<Rightarrow> Reply resp)),
               st\<lparr> caches := (caches st)(''irshados-pages'' :=
                     (if status resp = 0 \<or> status resp = 200
                      then drop (Suc (length (filter (\<lambda>e. key e \<noteq> (href r, ''GET''))
                                                 (caches st ''irshados-pages''))) - 20)
                             (filter (\<lambda>e. key e \<noteq> (href r, ''GET'')) (caches st ''irshados-pages'')
                                @ [\<lparr> key = (href r, ''GET''), stored = resp, insertedAt = now \<rparr>])
                      else caches st ''irshados-pages'')) \<rparr>)"
    using assms(3)
    by (simp add: handleRequest_def route networkFirst_def cachePut_def cacheWillUpdate_def
          expireEntries_def cacheKey_def split: option.splits)
  have 2: "handleRequest tk (evaluateScript accepts (Imported True) m) self_origin cachedPage
              now r Throws st
            = (Some (case cacheMatch (caches st ''irshados-pages'') r of
                       Some cached \<Rightarrow> Reply cached
                     | None \<Rightarrow> catchHandler cachedPage r), st)"
    by (simp add: handleRequest_def route networkFirst_def split: option.splits)
  have 3: "status resp = 0 \<or> status resp = 200 \<longrightarrow>
            length (caches (snd (handleRequest tk (evaluateScript accepts (Imported True) m)
                                   self_origin cachedPage now r (Answers elapsed resp) st))
                      ''irshados-pages'') \<le> 20"
    using networkFirst_written_length [of ?opts resp 5 now r elapsed "caches st ''irshados-pages''"]
    by (auto simp add: state cacheWillUpdate_def)
  have 4: "length (caches st ''irshados-pages'') \<le> 20 \<longrightarrow>
            length (caches (snd (handleRequest tk (evaluateScript accepts (Imported True) m)
                                   self_origin cachedPage now r net st)) ''irshados-pages'') \<le> 20"
    using networkFirst_length [of "caches st ''irshados-pages''" ?opts 5 now r net]
    by (simp add: state)
  show ?thesis
    using 1 2 3 4 by blast
qed

theorem navigation_network_first_witness:
  "mode \<lparr> href = ''https://shop.example/dashboard'', origin = ''https://shop.example'',
          pathname = ''/dashboard'', requestMethod = ''GET'', mode = ''navigate'',
          destination = ''document'', accept = None \<rparr> = ''navigate''
   \<and> requestMethod \<lparr> href = ''https://shop.example/dashboard'',
          origin = ''https://shop.example'', pathname = ''/dashboard'', requestMethod = ''GET'',
          mode = ''navigate'', destination = ''document'', accept = None \<rparr> = ''GET''
   \<and> \<not> precacheMatch \<lparr> precacheMatch = (\<lambda>r. False), precacheHandle = (\<lambda>r net. None) \<rparr>
          \<lparr> href = ''https://shop.example/dashboard'', origin = ''https://shop.example'',
            pathname = ''/dashboard'', requestMethod = ''GET'', mode = ''navigate'',
            destination = ''document'', accept = None \<rparr>
   \<and> length (caches \<lparr> caches = (\<lambda>name. if name = ''irshados-pages''
              then map (\<lambda>i. \<lparr> key = (''https://shop.example/p'' @ replicate i CHR ''x'', ''GET''),
                              stored = \<lparr> status = 200, headers = [], body = ''old'' \<rparr>,
                              insertedAt = i \<rparr>) [0..<20]
              else []), queue = [] \<rparr> ''irshados-pages'') = 20
   \<and> fst (handleRequest \<lparr> precacheMatch = (\<lambda>r. False), precacheHandle = (\<lambda>r net. None) \<rparr>
          (evaluateScript (\<lambda>m. True) (Imported True) None) ''https://shop.example'' None 1000
          \<lparr> href = ''https://shop.example/dashboard'', origin = ''https://shop.example'',
            pathname = ''/dashboard'', requestMethod = ''GET'', mode = ''navigate'',
            destination = ''document'', accept = None \<rparr>
          (Answers 100 \<lparr> status = 200, headers = [], body = ''page'' \<rparr>)
          \<lparr> caches = (\<lambda>name. if name = ''irshados-pages''
              then map (\<lambda>i. \<lparr> key = (''https://shop.example/p'' @ replicate i CHR ''x'', ''GET''),
                              stored = \<lparr> status = 200, headers = [], body = ''old'' \<rparr>,
                              insertedAt = i \<rparr>) [0..<20]
              else []), queue = [] \<rparr>)
     = Some (Reply \<lparr> status = 200, headers = [], body = ''page'' \<rparr>)
   \<and> map insertedAt (caches (snd (handleRequest
          \<lparr> precacheMatch = (\<lambda>r. False), precacheHandle = (\<lambda>r net. None) \<rparr>
          (evaluateScript (\<lambda>m. True) (Imported True) None) ''https://shop.example'' None 1000
          \<lparr> href = ''https://shop.example/dashboard'', origin = ''https://shop.example'',
            pathname = ''/dashboard'', requestMethod = ''GET'', mode = ''navigate'',
            destination = ''document'', accept = None \<rparr>
          (Answers 100 \<lparr> status = 200, headers = [], body = ''page'' \<rparr>)
          \<lparr> caches = (\<lambda>name. if name = ''irshados-pages''
              then map (\<lambda>i. \<lparr> key = (''https://shop.example/p'' @ replicate i CHR ''x'', ''GET''),
                              stored = \<lparr> status = 200, headers = [], body = ''old'' \<rparr>,
                              insertedAt = i \<rparr>) [0..<20]
              else []), queue = [] \<rparr>)) ''irshados-pages'')
     = [1..<20] @ [1000]
   \<and> fst (handleRequest \<lparr> precacheMatch = (\<lambda>r. False), precacheHandle = (\<lambda>r net. None) \<rparr>
          (evaluateScript (\<lambda>m. True) (Imported True) None) ''https://shop.example''
          (Some \<lparr> status = 200, headers = [], body = ''offline page'' \<rparr>) 1000
          \<lparr> href = ''https://shop.example/dashboard'', origin = ''https://shop.example'',
            pathname = ''/dashboard'', requestMethod = ''GET'', mode = ''navigate'',
            destination = ''document'', accept = None \<rparr>
          Throws
          \<lparr> caches = (\<lambda>name. []), queue = [] \<rparr>)
     = Some (Reply \<lparr> status = 200, headers = [], body = ''offline page'' \<rparr>)"
proof -
  have a: "(\<lambda>m. True) (precacheManifest None)"
    by simp
  have h: "mode \<lparr> href = ''https://shop.example/dashboard'', origin = ''https://shop.example'',
          pathname = ''/dashboard'', requestMethod = ''GET'', mode = ''navigate'',
          destination = ''document'', accept = None \<rparr> = ''navigate''"
    "requestMethod \<lparr> href = ''https://shop.example/dashboard'',
          origin = ''https://shop.example'', pathname = ''/dashboard'', requestMethod = ''GET'',
          mode = ''navigate'', destination = ''document'', accept = None \<rparr> = ''GET''"
    "\<not> precacheMatch \<lparr> precacheMatch = (\<lambda>r. False), precacheHandle = (\<lambda>r net. None) \<rparr>
          \<lparr> href = ''https://shop.example/dashboard'', origin = ''https://shop.example'',
            pathname = ''/dashboard'', requestMethod = ''GET'', mode = ''navigate'',
            destination = ''document'', accept = None \<rparr>"
    by simp_all
  show ?thesis
    using navigation_network_first
      [where accepts = "\<lambda>m. True" and m = None
          and r = "\<lparr> href = ''https://shop.example/dashboard'',
            origin = ''https://shop.example'', pathname = ''/dashboard'', requestMethod = ''GET'',
            mode = ''navigate'', destination = ''document'', accept = None \<rparr>"
          and tk = "\<lparr> precacheMatch = (\<lambda>r. False), precacheHandle = (\<lambda>r net. None) \<rparr>"
          and self_origin = "''https://shop.example''" and cachedPage = None and now = 1000
          and elapsed = 100 and resp = "\<lparr> status = 200, headers = [], body = ''page'' \<rparr>"
          and st = "\<lparr> caches = (\<lambda>name. if name = ''irshados-pages''
              then map (\<lambda>i. \<lparr> key = (''https://shop.example/p'' @ replicate i CHR ''x'', ''GET''),
                              stored = \<lparr> status = 200, headers = [], body = ''old'' \<rparr>,
                              insertedAt = i \<rparr>) [0..<20]
              else []), queue = [] \<rparr>",
        OF a h, THEN conjunct1]
      navigation_network_first
      [where accepts = "\<lambda>m. True" and m = None
          and r = "\<lparr> href = ''https://shop.example/dashboard'',
            origin = ''https://shop.example'', pathname = ''/dashboard'', requestMethod = ''GET'',
            mode = ''navigate'', destination = ''document'', accept = None \<rparr>"
          and tk = "\<lparr> precacheMatch = (\<lambda>r. False), precacheHandle = (\<lambda>r net. None) \<rparr>"
          and self_origin = "''https://shop.example''"
          and cachedPage = "Some \<lparr> status = 200, headers = [], body = ''offline page'' \<rparr>"
          and now = 1000 and st = "\<lparr> caches = (\<lambda>name. []), queue = [] \<rparr>",
        OF a h, THEN conjunct2, THEN conjunct1]
    by (simp add: cacheMatch_def catchHandler_def filter_id_conv drop_map drop_upt comp_def)
qed

end
